theory Spec2Isabelle
  imports Main "HOL-Library.Word" "HOL-Library.Signed_Division"
begin

unbundle bit_operations_syntax

section \<open>Data model (grid.h, world.h)\<close>

text \<open>
  \<^verbatim>\<open>enum Cell : char { DEAD = ' ', ALIVE = '#' }\<close>. The code only ever stores the two
  named values.
\<close>

datatype Cell = DEAD | ALIVE

text \<open>
  \<^verbatim>\<open>class Grid { int width, height; std::vector<std::vector<Cell>> grid; }\<close>.
  The storage is indexed \<^verbatim>\<open>grid[x][y]\<close>: an outer vector of \<open>width\<close> columns, each a
  vector of \<open>height\<close> cells.
\<close>

record Grid =
  width :: int
  height :: int
  grid :: "Cell list list"

text \<open>\<^verbatim>\<open>class World { Grid currentState; Grid nextState; }\<close>\<close>

record World =
  currentState :: Grid
  nextState :: Grid

text \<open>
  The exceptions the code raises: \<^verbatim>\<open>std::invalid_argument\<close> (grid.cpp),
  \<^verbatim>\<open>std::runtime_error\<close> (zoo.cpp), \<^verbatim>\<open>std::length_error\<close> (a \<^verbatim>\<open>std::vector\<close> built with
  a negative size, which converts to a size beyond \<^verbatim>\<open>max_size()\<close>). Two faults that are
  not C++ exceptions are values too, so that the model stays total: an integer division by
  zero and a read of an uninitialised variable.
\<close>

datatype error =
  Invalid_Argument
  | Runtime_Error
  | Length_Error
  | Division_By_Zero
  | Uninitialised_Read

definition and_then :: "error + 'a \<Rightarrow> ('a \<Rightarrow> error + 'b) \<Rightarrow> error + 'b" where
  "and_then m f = (case m of Inl e \<Rightarrow> Inl e | Inr a \<Rightarrow> f a)"

text \<open>A counted loop whose body may throw: the first exception leaves the loop.\<close>

fun for_each :: "'i list \<Rightarrow> ('i \<Rightarrow> 's \<Rightarrow> error + 's) \<Rightarrow> 's \<Rightarrow> error + 's" where
  "for_each [] body s = Inr s"
| "for_each (i # is) body s =
     (case body i s of Inl e \<Rightarrow> Inl e | Inr s' \<Rightarrow> for_each is body s')"

text \<open>The values of \<^verbatim>\<open>i\<close> in \<^verbatim>\<open>for (int i = 0; i < n; i++)\<close>.\<close>

definition range_int :: "int \<Rightarrow> int list" where
  "range_int n = map int [0..<nat n]"

text \<open>
  The implicit conversion of an \<^verbatim>\<open>int\<close> argument to an \<^verbatim>\<open>unsigned int\<close> parameter
  (32 bits): a negative value becomes a value of at least \<open>2 ^ 31\<close>.
\<close>

definition to_unsigned :: "int \<Rightarrow> nat" where
  "to_unsigned i = nat (i mod 2 ^ 32)"

section \<open>Grid (grid.cpp)\<close>

text \<open>
  \<^verbatim>\<open>Grid::Grid(int width, int height)\<close>: the vector constructors throw
  \<^verbatim>\<open>std::length_error\<close> on a negative size.
\<close>

definition Grid_new :: "int \<Rightarrow> int \<Rightarrow> error + Grid" where
  "Grid_new w h =
     (if w < 0 \<or> h < 0 then Inl Length_Error
      else Inr \<lparr>width = w, height = h, grid = replicate (nat w) (replicate (nat h) DEAD)\<rparr>)"

definition get_width :: "Grid \<Rightarrow> int" where
  "get_width g = width g"

definition get_height :: "Grid \<Rightarrow> int" where
  "get_height g = height g"

text \<open>
  \<^verbatim>\<open>Grid::get(unsigned int x, unsigned int y)\<close>: the bounds check compares against the
  sizes of the outer vector and of column 0; \<^verbatim>\<open>||\<close> does not look at column 0 when the
  first test already holds.
\<close>

definition get :: "Grid \<Rightarrow> int \<Rightarrow> int \<Rightarrow> error + Cell" where
  "get g x y =
     (let ux = to_unsigned x; uy = to_unsigned y in
      if ux \<ge> length (grid g) \<or> uy \<ge> length (grid g ! 0) then Inl Invalid_Argument
      else Inr (grid g ! ux ! uy))"

text \<open>\<^verbatim>\<open>Grid::set(unsigned int x, unsigned int y, Cell value)\<close>\<close>

definition set_cell :: "Grid \<Rightarrow> int \<Rightarrow> int \<Rightarrow> Cell \<Rightarrow> error + Grid" where
  "set_cell g x y v =
     (let ux = to_unsigned x; uy = to_unsigned y in
      if ux \<ge> length (grid g) \<or> uy \<ge> length (grid g ! 0) then Inl Invalid_Argument
      else Inr (g\<lparr>grid := (grid g)[ux := (grid g ! ux)[uy := v]]\<rparr>))"

text \<open>
  \<^verbatim>\<open>Grid::resize(int width, int height)\<close>: a fresh all-dead store of the new size, the old
  cells copied over the overlap with unchecked indexing.
\<close>

definition resize :: "Grid \<Rightarrow> int \<Rightarrow> int \<Rightarrow> error + Grid" where
  "resize g w h =
     (if w < 0 \<or> h < 0 then Inl Length_Error
      else
        (let gridTemp = replicate (nat w) (replicate (nat h) DEAD);
             stopWidth = min w (get_width g);
             stopHeight = min h (get_height g);
             gridTemp =
               fold (\<lambda>x t. fold (\<lambda>y t. t[x := (t ! x)[y := grid g ! x ! y]])
                               [0..<nat stopHeight] t)
                    [0..<nat stopWidth] gridTemp
         in Inr \<lparr>width = w, height = h, grid = gridTemp\<rparr>))"

text \<open>
  \<^verbatim>\<open>Grid::merge(Grid other, int x0, int y0, bool alive_only)\<close>: two guards, then loops
  over \<^verbatim>\<open>unsigned int\<close> coordinates with unchecked indexing.
\<close>

definition merge :: "Grid \<Rightarrow> Grid \<Rightarrow> int \<Rightarrow> int \<Rightarrow> bool \<Rightarrow> error + Grid" where
  "merge g other x0 y0 alive_only =
     (if x0 < 0 \<or> y0 < 0 then Inl Invalid_Argument
      else if x0 + get_width other > get_width g \<or> y0 + get_height other > get_height g
      then Inl Invalid_Argument
      else if alive_only then
        Inr (fold (\<lambda>x g.
               fold (\<lambda>y g.
                 if grid g ! x ! y = DEAD
                 then g\<lparr>grid := (grid g)[x := (grid g ! x)
                        [y := grid other ! (x - to_unsigned x0) ! (y - to_unsigned y0)]]\<rparr>
                 else g)
               [to_unsigned y0..<to_unsigned (get_height other + y0)] g)
             [to_unsigned x0..<to_unsigned (get_width other + x0)] g)
      else
        Inr (fold (\<lambda>x g.
               fold (\<lambda>y g.
                 g\<lparr>grid := (grid g)[x := (grid g ! x)
                   [y := grid other ! (x - to_unsigned x0) ! (y - to_unsigned y0)]]\<rparr>)
               [to_unsigned y0..<to_unsigned (get_height other + y0)] g)
             [to_unsigned x0..<to_unsigned (get_width other + x0)] g))"

section \<open>World (world.cpp)\<close>

text \<open>
  The value a 32-bit two's complement \<^verbatim>\<open>int\<close> holds after an addition whose exact result
  is \<open>i\<close>: the result wraps around modulo \<open>2 ^ 32\<close> into \<open>[- 2 ^ 31, 2 ^ 31)\<close>.
\<close>

definition wrap_int32 :: "int \<Rightarrow> int" where
  "wrap_int32 i = (i + 2 ^ 31) mod 2 ^ 32 - 2 ^ 31"

text \<open>
  \<^verbatim>\<open>int mod(int a, int b) { return (a % b + b) % b; }\<close>, where \<^verbatim>\<open>%\<close> truncates towards
  zero (\<open>smod\<close>), a zero divisor is a fault, and the sum \<^verbatim>\<open>a % b + b\<close> is a 32-bit
  addition: for a divisor above \<open>2 ^ 30\<close> it can pass \<open>2 ^ 31 - 1\<close>. C++ leaves that
  overflow undefined; the model takes what two's complement hardware computes, a wrap to
  a negative number, whose remainder is negative or zero.
\<close>

definition mod_helper :: "int \<Rightarrow> int \<Rightarrow> error + int" where
  "mod_helper a b =
     (if b = 0 then Inl Division_By_Zero else Inr (wrap_int32 (a smod b + b) smod b))"

text \<open>\<^verbatim>\<open>World::World(int width, int height)\<close> and \<^verbatim>\<open>World::World(Grid initial_state)\<close>\<close>

definition World_new :: "int \<Rightarrow> int \<Rightarrow> error + World" where
  "World_new w h =
     and_then (Grid_new w h) (\<lambda>worldGrid.
     and_then (Grid_new w h) (\<lambda>nextGrid.
     Inr \<lparr>currentState = worldGrid, nextState = nextGrid\<rparr>))"

definition World_of_grid :: "Grid \<Rightarrow> World" where
  "World_of_grid initial_state = \<lparr>currentState = initial_state, nextState = initial_state\<rparr>"

text \<open>\<^verbatim>\<open>if (currentState.get(x, y) == ALIVE) numNeighbours++;\<close>\<close>

definition count_alive :: "Grid \<Rightarrow> int \<Rightarrow> int \<Rightarrow> int \<Rightarrow> error + int" where
  "count_alive g x y numNeighbours =
     and_then (get g x y) (\<lambda>c. Inr (if c = ALIVE then numNeighbours + 1 else numNeighbours))"

text \<open>The same with wrapped coordinates, \<^verbatim>\<open>get(mod(..), mod(..))\<close>.\<close>

definition count_alive_mod ::
  "Grid \<Rightarrow> error + int \<Rightarrow> error + int \<Rightarrow> int \<Rightarrow> error + int" where
  "count_alive_mod g mx my numNeighbours =
     and_then mx (\<lambda>x. and_then my (\<lambda>y. count_alive g x y numNeighbours))"

text \<open>\<^verbatim>\<open>World::count_neighbours(int x, int y, bool toroidal)\<close>, test by test in source order.\<close>

definition count_neighbours :: "World \<Rightarrow> int \<Rightarrow> int \<Rightarrow> bool \<Rightarrow> error + int" where
  "count_neighbours w x y toroidal =
     (let cs = currentState w in
      if \<not> toroidal then
        and_then (if x > 0 then count_alive cs (x - 1) y 0 else Inr 0) (\<lambda>n.
        and_then (if x < get_width cs - 1 then count_alive cs (x + 1) y n else Inr n) (\<lambda>n.
        and_then (if y > 0 then count_alive cs x (y - 1) n else Inr n) (\<lambda>n.
        and_then (if y < get_height cs - 1 then count_alive cs x (y + 1) n else Inr n) (\<lambda>n.
        and_then (if x > 0 \<and> y < get_height cs - 1
                  then count_alive cs (x - 1) (y + 1) n else Inr n) (\<lambda>n.
        and_then (if x < get_width cs - 1 \<and> y < get_height cs - 1
                  then count_alive cs (x + 1) (y + 1) n else Inr n) (\<lambda>n.
        and_then (if x > 0 \<and> y > 0 then count_alive cs (x - 1) (y - 1) n else Inr n) (\<lambda>n.
        (if x < get_width cs - 1 \<and> y > 0
         then count_alive cs (x + 1) (y - 1) n else Inr n))))))))
      else
        (let wd = get_width cs; ht = get_height cs in
         and_then (count_alive_mod cs (mod_helper (x - 1) wd) (Inr y) 0) (\<lambda>n.
         and_then (count_alive_mod cs (mod_helper (x + 1) wd) (Inr y) n) (\<lambda>n.
         and_then (count_alive_mod cs (Inr x) (mod_helper (y - 1) ht) n) (\<lambda>n.
         and_then (count_alive_mod cs (Inr x) (mod_helper (y + 1) ht) n) (\<lambda>n.
         and_then (count_alive_mod cs (mod_helper (x - 1) wd) (mod_helper (y - 1) ht) n) (\<lambda>n.
         and_then (count_alive_mod cs (mod_helper (x + 1) wd) (mod_helper (y - 1) ht) n) (\<lambda>n.
         and_then (count_alive_mod cs (mod_helper (x - 1) wd) (mod_helper (y + 1) ht) n) (\<lambda>n.
         count_alive_mod cs (mod_helper (x + 1) wd) (mod_helper (y + 1) ht) n)))))))))"

text \<open>\<^verbatim>\<open>this->nextState.set(x, y, v)\<close>\<close>

definition set_next :: "World \<Rightarrow> int \<Rightarrow> int \<Rightarrow> Cell \<Rightarrow> error + World" where
  "set_next w x y v = and_then (set_cell (nextState w) x y v) (\<lambda>g. Inr (w\<lparr>nextState := g\<rparr>))"

text \<open>
  The body of the two loops of \<^verbatim>\<open>World::step\<close>: four independent \<^verbatim>\<open>if\<close> statements, each
  reading the current state again; a cell that matches none of them is not written.
\<close>

definition step_cell :: "bool \<Rightarrow> int \<Rightarrow> int \<Rightarrow> World \<Rightarrow> error + World" where
  "step_cell toroidal y x w =
     and_then (count_neighbours w x y toroidal) (\<lambda>numNeighbours.
     and_then (get (currentState w) x y) (\<lambda>c.
     and_then (if c = ALIVE \<and> numNeighbours < 2 then set_next w x y DEAD else Inr w) (\<lambda>w.
     and_then (get (currentState w) x y) (\<lambda>c.
     and_then (if c = ALIVE \<and> (numNeighbours = 2 \<or> numNeighbours = 3)
               then set_next w x y ALIVE else Inr w) (\<lambda>w.
     and_then (get (currentState w) x y) (\<lambda>c.
     and_then (if c = ALIVE \<and> numNeighbours > 3 then set_next w x y DEAD else Inr w) (\<lambda>w.
     and_then (get (currentState w) x y) (\<lambda>c.
     (if c = DEAD \<and> numNeighbours = 3 then set_next w x y ALIVE else Inr w)))))))))"

text \<open>
  \<^verbatim>\<open>World::step(bool toroidal)\<close>: rows outside, columns inside, then the assignment
  \<^verbatim>\<open>this->currentState = this->nextState\<close>, which copies the next state over the current one
  and leaves the next state as it is.
\<close>

definition step :: "bool \<Rightarrow> World \<Rightarrow> error + World" where
  "step toroidal w =
     and_then
       (for_each (range_int (get_height (currentState w)))
          (\<lambda>y w. for_each (range_int (get_width (currentState w))) (step_cell toroidal y) w) w)
       (\<lambda>w. Inr (w\<lparr>currentState := nextState w\<rparr>))"

text \<open>
  \<^verbatim>\<open>World::advance(int steps, bool toroidal)\<close>: \<^verbatim>\<open>for (int i = 0; i < steps; i++) step(toroidal);\<close>
\<close>

function advance_from :: "int \<Rightarrow> int \<Rightarrow> bool \<Rightarrow> World \<Rightarrow> error + World" where
  "advance_from i steps toroidal w =
     (if i < steps
      then (case step toroidal w of
              Inl e \<Rightarrow> Inl e
            | Inr w' \<Rightarrow> advance_from (i + 1) steps toroidal w')
      else Inr w)"
  by pat_completeness auto
termination
  by (relation "measure (\<lambda>(i, steps, toroidal, w). nat (steps - i))") auto

definition advance :: "int \<Rightarrow> bool \<Rightarrow> World \<Rightarrow> error + World" where
  "advance steps toroidal w = advance_from 0 steps toroidal w"

text \<open>\<^verbatim>\<open>World::resize(int new_width, int new_height)\<close> resizes the current state only.\<close>

definition World_resize :: "World \<Rightarrow> int \<Rightarrow> int \<Rightarrow> error + World" where
  "World_resize w new_width new_height =
     and_then (resize (currentState w) new_width new_height) (\<lambda>g. Inr (w\<lparr>currentState := g\<rparr>))"

section \<open>Zoo (zoo.cpp)\<close>

text \<open>\<^verbatim>\<open>Zoo::glider()\<close>\<close>

definition glider :: "error + Grid" where
  "glider =
     and_then (Grid_new 3 3) (\<lambda>g.
     and_then (set_cell g 0 2 ALIVE) (\<lambda>g.
     and_then (set_cell g 1 2 ALIVE) (\<lambda>g.
     and_then (set_cell g 2 2 ALIVE) (\<lambda>g.
     and_then (set_cell g 2 1 ALIVE) (\<lambda>g.
     set_cell g 1 0 ALIVE)))))"

subsection \<open>The ascii format\<close>

text \<open>
  A file is its contents, a list of characters. \<^verbatim>\<open>inputFile.get()\<close> returns the next
  character, or \<^verbatim>\<open>EOF\<close> (\<open>-1\<close>) at the end of the contents; the code stores the result in a
  \<^verbatim>\<open>char\<close>, where \<^verbatim>\<open>EOF\<close> becomes the byte \<open>0xFF\<close>.
\<close>

definition stream_get :: "string \<Rightarrow> char \<times> string" where
  "stream_get s = (case s of [] \<Rightarrow> (CHR 0xFF, []) | c # cs \<Rightarrow> (c, cs))"

text \<open>\<^verbatim>\<open>(int)c\<close> for a \<^verbatim>\<open>char\<close> \<open>c\<close>, which is a signed byte on the usual platforms.\<close>

definition char_to_int :: "char \<Rightarrow> int" where
  "char_to_int c = (let v = of_char c in if v \<ge> 128 then v - 256 else v)"

text \<open>
  \<^verbatim>\<open>Zoo::load_ascii(std::string path)\<close> on the contents of the file. The width and the
  height are each read as one character. The loop state is the grid and the rest of the
  stream. The \<^verbatim>\<open>std::runtime_error\<close>s are not \<^verbatim>\<open>std::ifstream::failure\<close>s, so the handler
  does not catch them.
\<close>

definition load_ascii :: "string \<Rightarrow> error + Grid" where
  "load_ascii file =
     (let (widthChar, s) = stream_get file;
          (_, s) = stream_get s;
          (heightChar, s) = stream_get s;
          width = char_to_int widthChar - char_to_int CHR ''0'';
          height = char_to_int heightChar - char_to_int CHR ''0''
      in if width < 0 \<or> height < 0 then Inl Runtime_Error
         else
           (let (_, s) = stream_get s in
            and_then (resize \<lparr>width = 0, height = 0, grid = []\<rparr> width height) (\<lambda>parsedGrid.
            and_then
              (for_each (range_int height)
                 (\<lambda>y (g, s).
                    and_then
                      (for_each (range_int width)
                         (\<lambda>x (g, s).
                            (let (buffer, s) = stream_get s in
                             if buffer = CHR ''#''
                             then and_then (set_cell g x y ALIVE) (\<lambda>g. Inr (g, s))
                             else if buffer = CHR '' ''
                             then and_then (set_cell g x y DEAD) (\<lambda>g. Inr (g, s))
                             else Inl Runtime_Error))
                         (g, s))
                      (\<lambda>(g, s).
                         (let (buffer, s) = stream_get s in
                          if buffer \<noteq> CHR 0x0A then Inl Runtime_Error else Inr (g, s))))
                 (parsedGrid, s))
              (\<lambda>(g, s). Inr g))))"

text \<open>\<^verbatim>\<open>writefile << n\<close> for an \<^verbatim>\<open>int\<close>: its decimal digits.\<close>

fun show_nat :: "nat \<Rightarrow> string" where
  "show_nat n =
     (if n < 10 then [char_of (48 + n)] else show_nat (n div 10) @ [char_of (48 + n mod 10)])"

declare show_nat.simps [simp del]

definition show_int :: "int \<Rightarrow> string" where
  "show_int i = (if i < 0 then CHR ''-'' # show_nat (nat (- i)) else show_nat (nat i))"

text \<open>
  \<^verbatim>\<open>Zoo::save_ascii(std::string path, Grid grid)\<close>, returning what is written to the file
  when the function returns. The inner loop runs \<^verbatim>\<open>x\<close> up to \<^verbatim>\<open>grid.get_height()\<close>, as the
  source does.
\<close>

definition save_ascii :: "Grid \<Rightarrow> error + string" where
  "save_ascii g =
     for_each (range_int (get_height g))
       (\<lambda>y out.
          and_then
            (for_each (range_int (get_height g))
               (\<lambda>x out.
                  and_then (get g x y) (\<lambda>c.
                  if c = ALIVE then Inr (out @ ''#'')
                  else and_then (get g x y) (\<lambda>c.
                       if c = DEAD then Inr (out @ '' '') else Inr out)))
               out)
            (\<lambda>out. Inr (out @ [CHR 0x0A])))
       (show_int (get_width g) @ '' '' @ show_int (get_height g) @ [CHR 0x0A])"

subsection \<open>The binary format\<close>

type_synonym byte = "8 word"

text \<open>
  \<^verbatim>\<open>inputFile.read((char*)&n, sizeof(int))\<close> on a little-endian machine: four bytes read as
  a two's complement number. With fewer than four bytes left the variable stays
  uninitialised.
\<close>

definition read_int :: "byte list \<Rightarrow> (int \<times> byte list) option" where
  "read_int s =
     (case s of
        b0 # b1 # b2 # b3 # rest \<Rightarrow>
          (let u = uint b0 + 256 * uint b1 + 65536 * uint b2 + 16777216 * uint b3
           in Some (if u \<ge> 2 ^ 31 then u - 2 ^ 32 else u, rest))
      | _ \<Rightarrow> None)"

text \<open>
  The inner loop of \<^verbatim>\<open>Zoo::load_binary\<close> over \<^verbatim>\<open>j\<close>, with its \<^verbatim>\<open>break\<close>.
\<close>

fun load_bits :: "int \<Rightarrow> int \<Rightarrow> byte list \<Rightarrow> int \<Rightarrow> int list \<Rightarrow> Grid \<Rightarrow> error + Grid" where
  "load_bits wd ht cellBytes i [] g = Inr g"
| "load_bits wd ht cellBytes i (j # js) g =
     (let curBit = i * 8 + j in
      if curBit \<ge> ht * wd then Inr g
      else
        (let x = curBit smod wd; y = curBit sdiv wd in
         and_then
           (if (cellBytes ! nat i) AND push_bit (nat j) 1 \<noteq> 0
            then set_cell g x y ALIVE else Inr g)
           (load_bits wd ht cellBytes i js)))"

text \<open>
  \<^verbatim>\<open>Zoo::load_binary(std::string path)\<close> on the contents of a file that could be opened.
  \<^verbatim>\<open>istream::read\<close> stores the bytes that are there and sets the stream's fail bit when
  they are fewer than asked for; the stream has no exception mask, so a short read throws
  nothing and the rest of the zero-initialised array stays zero. Every exception inside
  the \<^verbatim>\<open>try\<close> block is rethrown as a \<^verbatim>\<open>std::runtime_error\<close>.
\<close>

definition load_binary :: "byte list \<Rightarrow> error + Grid" where
  "load_binary file =
     (case read_int file of
        None \<Rightarrow> Inl Uninitialised_Read
      | Some (wd, s) \<Rightarrow>
          (case read_int s of
             None \<Rightarrow> Inl Uninitialised_Read
           | Some (ht, s) \<Rightarrow>
               (case
                  and_then (Grid_new wd ht) (\<lambda>loadGrid.
                    (let numBytes = ((ht * wd) + ((ht * wd) smod 8)) sdiv 8;
                         cellBytes = take (nat numBytes) s
                                     @ replicate (nat numBytes - length s) 0
                     in for_each (range_int numBytes)
                          (\<lambda>i g. load_bits wd ht cellBytes i (range_int 8) g)
                          loadGrid))
                of Inl e \<Rightarrow> Inl Runtime_Error
                 | Inr g \<Rightarrow> Inr g)))"

text \<open>
  The inner loop of \<^verbatim>\<open>Zoo::save_binary\<close> over \<^verbatim>\<open>j\<close>, with its \<^verbatim>\<open>break\<close>;
  \<^verbatim>\<open>grid(x, y)\<close> is \<^verbatim>\<open>Grid::operator()\<close>, whose body is that of \<^verbatim>\<open>Grid::get\<close>.
\<close>

fun save_bits :: "Grid \<Rightarrow> int \<Rightarrow> int \<Rightarrow> int \<Rightarrow> int list \<Rightarrow> byte list \<Rightarrow> error + byte list" where
  "save_bits g wd ht i [] gridBytes = Inr gridBytes"
| "save_bits g wd ht i (j # js) gridBytes =
     (let curBit = i * 8 + j in
      if curBit \<ge> ht * wd then Inr gridBytes
      else
        (let x = curBit smod wd; y = curBit sdiv wd in
         and_then (get g x y) (\<lambda>c.
         save_bits g wd ht i js
           (if c = ALIVE
            then gridBytes[nat i := (gridBytes ! nat i) OR push_bit (nat j) 1]
            else gridBytes))))"

text \<open>
  \<^verbatim>\<open>Zoo::save_binary(std::string path, Grid grid)\<close>, returning the bytes written. Header
  byte \<open>k\<close> of a dimension \<open>n\<close> is \<^verbatim>\<open>(char)(n << 8 * k)\<close>: the low byte of \<open>n\<close> shifted
  left. The number of data bytes is the source's
  \<^verbatim>\<open>((height*width)+((height*width)%8))/8\<close>.
\<close>

definition save_binary :: "Grid \<Rightarrow> error + byte list" where
  "save_binary g =
     (let width = get_width g;
          height = get_height g;
          headBytes =
            [word_of_int (push_bit 0 width), word_of_int (push_bit 8 width),
             word_of_int (push_bit 16 width), word_of_int (push_bit 24 width),
             word_of_int (push_bit 0 height), word_of_int (push_bit 8 height),
             word_of_int (push_bit 16 height), word_of_int (push_bit 24 height)];
          numBytes = ((height * width) + ((height * width) smod 8)) sdiv 8;
          gridBytes = replicate (nat numBytes) 0
      in and_then
           (for_each (range_int numBytes)
              (\<lambda>i gridBytes. save_bits g width height i (range_int 8) gridBytes)
              gridBytes)
           (\<lambda>gridBytes. Inr (headBytes @ gridBytes)))"

section \<open>Specification-level notions\<close>

text \<open>
  The class invariant of \<^verbatim>\<open>Grid\<close>, which every public operation establishes and keeps:
  the two \<^verbatim>\<open>int\<close> fields are non-negative values of a 32-bit \<^verbatim>\<open>int\<close>, and the store has
  \<open>width\<close> columns of \<open>height\<close> cells.
\<close>

definition wf_grid :: "Grid \<Rightarrow> bool" where
  "wf_grid g \<longleftrightarrow>
     0 \<le> width g \<and> width g < 2 ^ 31 \<and> 0 \<le> height g \<and> height g < 2 ^ 31
     \<and> length (grid g) = nat (width g)
     \<and> (\<forall>col \<in> set (grid g). length col = nat (height g))"

definition cell_at :: "Grid \<Rightarrow> int \<Rightarrow> int \<Rightarrow> Cell" where
  "cell_at g x y = grid g ! nat x ! nat y"

text \<open>
  The transition as the specification words it. The neighbours of \<open>(x, y)\<close> are the eight
  cells of the 3x3 neighbourhood without the centre. Without wrap-around a coordinate
  outside the grid contributes 0; with it, each coordinate is taken modulo the width or
  the height (\<open>mod\<close> on \<open>int\<close> is the non-negative remainder for a positive divisor).
\<close>

definition neighbour_offsets :: "(int \<times> int) list" where
  "neighbour_offsets = [(-1, -1), (0, -1), (1, -1), (-1, 0), (1, 0), (-1, 1), (0, 1), (1, 1)]"

definition alive_contribution :: "bool \<Rightarrow> Grid \<Rightarrow> int \<Rightarrow> int \<Rightarrow> int" where
  "alive_contribution toroidal g x y =
     (if toroidal
      then (if cell_at g (x mod width g) (y mod height g) = ALIVE then 1 else 0)
      else (if 0 \<le> x \<and> x < width g \<and> 0 \<le> y \<and> y < height g \<and> cell_at g x y = ALIVE
            then 1 else 0))"

definition alive_neighbours :: "bool \<Rightarrow> Grid \<Rightarrow> int \<Rightarrow> int \<Rightarrow> int" where
  "alive_neighbours toroidal g x y =
     (\<Sum>(dx, dy) \<leftarrow> neighbour_offsets. alive_contribution toroidal g (x + dx) (y + dy))"

definition conway_rule :: "Cell \<Rightarrow> int \<Rightarrow> Cell" where
  "conway_rule c n =
     (if c = ALIVE \<and> (n < 2 \<or> n > 3) then DEAD
      else if c = ALIVE \<and> (n = 2 \<or> n = 3) then ALIVE
      else if c = DEAD \<and> n = 3 then ALIVE
      else c)"

definition conway_transition :: "bool \<Rightarrow> Grid \<Rightarrow> Grid" where
  "conway_transition toroidal g =
     \<lparr>width = width g, height = height g,
      grid = map (\<lambda>x. map (\<lambda>y. conway_rule (cell_at g (int x) (int y))
                                   (alive_neighbours toroidal g (int x) (int y)))
                          [0..<nat (height g)])
                 [0..<nat (width g)]\<rparr>"

text \<open>
  The worlds the public interface builds without \<^verbatim>\<open>resize\<close>: constructed from dimensions
  (values of a 32-bit \<^verbatim>\<open>int\<close>) or from a grid, then stepped any number of times.
\<close>

inductive reachable :: "World \<Rightarrow> bool" where
  from_dimensions:
    "w < 2 ^ 31 \<Longrightarrow> h < 2 ^ 31 \<Longrightarrow> World_new w h = Inr wld \<Longrightarrow> reachable wld"
| from_grid: "wf_grid g \<Longrightarrow> reachable (World_of_grid g)"
| after_step: "reachable wld \<Longrightarrow> step toroidal wld = Inr wld' \<Longrightarrow> reachable wld'"

text \<open>\<open>n\<close> calls of \<open>step\<close> in sequence, stopping at the first exception.\<close>

fun steps_in_sequence :: "nat \<Rightarrow> bool \<Rightarrow> World \<Rightarrow> error + World" where
  "steps_in_sequence 0 toroidal w = Inr w"
| "steps_in_sequence (Suc n) toroidal w =
     (case step toroidal w of Inl e \<Rightarrow> Inl e | Inr w' \<Rightarrow> steps_in_sequence n toroidal w')"

text \<open>
  Modelled from the spec: \<^verbatim>\<open>Grid::rotate(int rotation)\<close> is declared in grid.h, and
  grid.cpp holds only commented-out drafts of it. The specification asks for a new grid
  rotated by \<open>rotation\<close> times 90 degrees clockwise, for any integer \<open>rotation\<close>, reduced
  modulo 4 before rotating; an odd multiple swaps width and height, and a 1x3 grid rotated
  once becomes 3x1. One clockwise quarter turn sends the old top-left cell to the top-right
  corner: the new cell \<open>(x, y)\<close> is the old cell \<open>(y, height - 1 - x)\<close>.
\<close>

definition rotate_once :: "Grid \<Rightarrow> Grid" where
  "rotate_once g =
     \<lparr>width = height g, height = width g,
      grid = map (\<lambda>x. map (\<lambda>y. grid g ! y ! (nat (height g) - 1 - x)) [0..<nat (width g)])
                 [0..<nat (height g)]\<rparr>"

definition rotate_grid :: "Grid \<Rightarrow> int \<Rightarrow> Grid" where
  "rotate_grid g rotation = (rotate_once ^^ nat (rotation mod 4)) g"

section \<open>Auxiliary notions for the proofs\<close>

text \<open>The unchecked write \<^verbatim>\<open>grid[x][y] = v\<close>.\<close>

definition put :: "Grid \<Rightarrow> nat \<Rightarrow> nat \<Rightarrow> Cell \<Rightarrow> Grid" where
  "put g x y v = g\<lparr>grid := (grid g)[x := (grid g ! x)[y := v]]\<rparr>"

definition shape :: "Grid \<Rightarrow> nat \<Rightarrow> nat \<Rightarrow> bool" where
  "shape g W H \<longleftrightarrow> length (grid g) = W \<and> (\<forall>x < W. length (grid g ! x) = H)"


text \<open>
  A sequence of writes, each computed from the coordinates and the cell's value at the
  time of the write.
\<close>

definition write_all :: "(nat \<Rightarrow> nat \<Rightarrow> Cell \<Rightarrow> Cell) \<Rightarrow> (nat \<times> nat) list \<Rightarrow> Grid \<Rightarrow> Grid" where
  "write_all val ps g = fold (\<lambda>(x, y) g. put g x y (val x y (grid g ! x ! y))) ps g"

text \<open>What the loop body of \<open>merge\<close> with \<^verbatim>\<open>alive_only\<close> leaves in a cell of the target.\<close>

definition merge_value :: "Grid \<Rightarrow> nat \<Rightarrow> nat \<Rightarrow> nat \<Rightarrow> nat \<Rightarrow> Cell \<Rightarrow> Cell" where
  "merge_value other ux0 uy0 x y old =
     (if old = DEAD then grid other ! (x - ux0) ! (y - uy0) else old)"



section \<open>World::resize and the two buffers\<close>

text \<open>
  C2. The claim says that after \<open>World::resize\<close> both buffers have the new dimensions.
  The code resizes the current state only: a 1x1 world resized to 2x2 has a 2x2 current
  state and a 1x1 next state, and the step that follows copies the 1x1 next state back
  over the current one.
\<close>

theorem World_resize_leaves_next:
  "and_then (World_new 1 1) (\<lambda>w. World_resize w 2 2)
   = Inr \<lparr>currentState = \<lparr>width = 2, height = 2, grid = [[DEAD, DEAD], [DEAD, DEAD]]\<rparr>,
          nextState = \<lparr>width = 1, height = 1, grid = [[DEAD]]\<rparr>\<rparr>
   \<and> and_then (and_then (World_new 1 1) (\<lambda>w. World_resize w 2 2)) (step False)
   = Inr \<lparr>currentState = \<lparr>width = 1, height = 1, grid = [[DEAD]]\<rparr>,
          nextState = \<lparr>width = 1, height = 1, grid = [[DEAD]]\<rparr>\<rparr>"
  by code_simp

text \<open>
  With live cells the step after a resize writes outside the next state and throws: the
  3x1 world of three live cells, resized to 3x2, gives birth at \<open>(1, 1)\<close>.
\<close>

lemma resize_then_step_throws:
  "and_then
     (World_resize
        (World_of_grid \<lparr>width = 3, height = 1, grid = [[ALIVE], [ALIVE], [ALIVE]]\<rparr>) 3 2)
     (step False) = Inl Invalid_Argument"
  by code_simp

text \<open>
  C6. The claim says that after a step the next state holds the generation the current
  state held before the step. The code ends the step with a copy assignment, so both
  buffers hold the new generation: the 1x1 world with its cell alive steps to a world
  whose next state is dead, not alive.
\<close>

theorem step_copies_next:
  "step False (World_of_grid \<lparr>width = 1, height = 1, grid = [[ALIVE]]\<rparr>)
   = Inr \<lparr>currentState = \<lparr>width = 1, height = 1, grid = [[DEAD]]\<rparr>,
          nextState = \<lparr>width = 1, height = 1, grid = [[DEAD]]\<rparr>\<rparr>"
  by code_simp

section \<open>The file formats\<close>

text \<open>
  C3. The claim says that \<open>save_binary\<close> then \<open>load_binary\<close> gives the grid back. The
  glider is 3x3, nine cells; the code computes \<open>(9 + 9 % 8) / 8 = 1\<close> data byte, so the
  ninth cell, \<open>(2, 2)\<close>, is not written and comes back dead.
\<close>

theorem save_binary_load_binary_glider:
  "glider = Inr \<lparr>width = 3, height = 3,
                 grid = [[DEAD, DEAD, ALIVE], [ALIVE, DEAD, ALIVE], [DEAD, ALIVE, ALIVE]]\<rparr>
   \<and> and_then glider save_binary = Inr [3, 0, 0, 0, 3, 0, 0, 0, 226]
   \<and> and_then (and_then glider save_binary) load_binary
     = Inr \<lparr>width = 3, height = 3,
            grid = [[DEAD, DEAD, ALIVE], [ALIVE, DEAD, ALIVE], [DEAD, ALIVE, DEAD]]\<rparr>"
  by code_simp

text \<open>
  C4. The claim says that \<open>save_ascii\<close> writes \<open>height\<close> lines of \<open>width\<close> characters and
  that \<open>load_ascii\<close> reads them back. The inner loop of \<open>save_ascii\<close> is bounded by the
  height: the 2x1 grid with both cells alive is written with one character on its line,
  and \<open>load_ascii\<close> rejects that file.
\<close>

theorem save_ascii_load_ascii_2x1:
  "save_ascii \<lparr>width = 2, height = 1, grid = [[ALIVE], [ALIVE]]\<rparr> = Inr ''2 1\<newline>#\<newline>''
   \<and> and_then (save_ascii \<lparr>width = 2, height = 1, grid = [[ALIVE], [ALIVE]]\<rparr>) load_ascii
     = Inl Runtime_Error"
  by code_simp

text \<open>
  C5. The claim says that \<open>save_binary\<close> writes \<open>ceil (width * height / 8)\<close> data bytes
  after a header of two little-endian integers. For the 1x1 grid with its cell alive the
  code writes the eight header bytes and no data byte at all. For a grid of width 256 the
  four width bytes are all zero, the low byte of 256 shifted left.
\<close>

theorem save_binary_short:
  "save_binary \<lparr>width = 1, height = 1, grid = [[ALIVE]]\<rparr> = Inr [1, 0, 0, 0, 1, 0, 0, 0]
   \<and> save_binary \<lparr>width = 256, height = 0, grid = replicate 256 []\<rparr>
     = Inr [0, 0, 0, 0, 0, 0, 0, 0]"
  by code_simp

text \<open>
  C7. The claim says that \<open>load_binary\<close> fails on a file with fewer data bytes than its
  header declares. A 4x4 header followed by one byte instead of two loads as a grid whose
  last two rows are dead.
\<close>

theorem load_binary_truncated:
  "load_binary [4, 0, 0, 0, 4, 0, 0, 0, 255]
   = Inr \<lparr>width = 4, height = 4,
          grid = [[ALIVE, ALIVE, DEAD, DEAD], [ALIVE, ALIVE, DEAD, DEAD],
                  [ALIVE, ALIVE, DEAD, DEAD], [ALIVE, ALIVE, DEAD, DEAD]]\<rparr>"
  by code_simp

section \<open>World::advance\<close>

lemma advance_from_steps:
  "advance_from i steps toroidal w = steps_in_sequence (nat (steps - i)) toroidal w"
proof (induction i steps toroidal w rule: advance_from.induct)
  case (1 i steps toroidal w)
  show ?case
  proof (cases "i < steps")
    case True
    then have n: "nat (steps - i) = Suc (nat (steps - (i + 1)))"
      by simp
    show ?thesis
    proof (cases "step toroidal w")
      case (Inl e)
      with True n show ?thesis
        by (simp del: advance_from.simps add: advance_from.simps [of i steps toroidal w])
    next
      case (Inr w')
      with True n "1.IH" [OF True Inr] show ?thesis
        by (simp del: advance_from.simps add: advance_from.simps [of i steps toroidal w])
    qed
  next
    case False
    then show ?thesis
      by (simp del: advance_from.simps add: advance_from.simps [of i steps toroidal w])
  qed
qed

text \<open>
  C10. For every world and every integer \<open>steps\<close>, \<open>advance\<close> is \<open>max steps 0\<close> calls of
  \<open>step\<close> in sequence (stopping at the first exception, as the C++ loop does), and with
  \<open>steps\<close> zero or negative it returns the world unchanged.
\<close>

theorem advance_is_max_steps:
  "advance steps toroidal w = steps_in_sequence (nat (max steps 0)) toroidal w
   \<and> (steps \<le> 0 \<longrightarrow> advance steps toroidal w = Inr w)"
proof -
  have "nat (steps - 0) = nat (max steps 0)"
    by simp
  then have a: "advance steps toroidal w = steps_in_sequence (nat (max steps 0)) toroidal w"
    unfolding advance_def advance_from_steps by simp
  have "steps \<le> 0 \<Longrightarrow> nat (max steps 0) = 0"
    by simp
  with a show ?thesis
    by simp
qed

theorem advance_is_max_steps_witness:
  "(-3 :: int) \<le> 0
   \<and> advance (-3) True (World_of_grid \<lparr>width = 1, height = 1, grid = [[ALIVE]]\<rparr>)
       = Inr (World_of_grid \<lparr>width = 1, height = 1, grid = [[ALIVE]]\<rparr>)"
  using advance_is_max_steps
    [of "-3" True "World_of_grid \<lparr>width = 1, height = 1, grid = [[ALIVE]]\<rparr>"]
  by simp

section \<open>Loops as sequences of cell writes\<close>

lemma put_same: "put g x y (grid g ! x ! y) = g"
  by (simp add: put_def)

lemma put_fields: "width (put g x y v) = width g" "height (put g x y v) = height g"
  by (simp_all add: put_def)

lemma shape_put: "shape g W H \<Longrightarrow> shape (put g x y v) W H"
proof -
  assume s: "shape g W H"
  have "length ((grid g)[x := (grid g ! x)[y := v]] ! i) = H" if "i < W" for i
    using s that by (cases "i = x") (simp_all add: shape_def)
  then show ?thesis using s by (simp add: shape_def put_def)
qed

lemma nth_put:
  "shape g W H \<Longrightarrow> x < W \<Longrightarrow> y < H \<Longrightarrow> x' < W \<Longrightarrow> y' < H \<Longrightarrow>
   grid (put g x y v) ! x' ! y' = (if x' = x \<and> y' = y then v else grid g ! x' ! y')"
  by (auto simp: shape_def put_def nth_list_update)

lemma write_all_fields:
  "width (write_all val ps g) = width g \<and> height (write_all val ps g) = height g"
  unfolding write_all_def by (induction ps arbitrary: g) (auto simp: put_fields)

lemma shape_write_all: "shape g W H \<Longrightarrow> shape (write_all val ps g) W H"
  unfolding write_all_def by (induction ps arbitrary: g) (auto simp: shape_put)

lemma nth_write_all:
  assumes "shape g W H" "distinct ps" "\<forall>(x, y) \<in> set ps. x < W \<and> y < H" "x' < W" "y' < H"
  shows "grid (write_all val ps g) ! x' ! y'
         = (if (x', y') \<in> set ps then val x' y' (grid g ! x' ! y') else grid g ! x' ! y')"
  using assms
proof (induction ps arbitrary: g)
  case Nil
  then show ?case by (simp add: write_all_def)
next
  case (Cons p ps)
  obtain x y where p: "p = (x, y)" by (cases p)
  let ?g = "put g x y (val x y (grid g ! x ! y))"
  have w: "write_all val (p # ps) g = write_all val ps ?g"
    by (simp add: write_all_def p)
  have xy: "x < W" "y < H" using Cons.prems(3) p by auto
  have sh: "shape ?g W H" using Cons.prems(1) by (rule shape_put)
  have ih: "grid (write_all val ps ?g) ! x' ! y'
         = (if (x', y') \<in> set ps then val x' y' (grid ?g ! x' ! y') else grid ?g ! x' ! y')"
    using Cons.IH [OF sh] Cons.prems by simp
  have np: "(x, y) \<notin> set ps" using Cons.prems(2) p by simp
  have g': "grid ?g ! x' ! y' = (if x' = x \<and> y' = y then val x y (grid g ! x ! y) else grid g ! x' ! y')"
    using nth_put [OF Cons.prems(1) xy Cons.prems(4,5)] by simp
  show ?case
    unfolding w ih g' using np p by auto
qed

lemma fold_nested_product:
  "fold (\<lambda>a s. fold (\<lambda>b s. f a b s) bs s) as s = fold (\<lambda>(a, b) s. f a b s) (List.product as bs) s"
proof (induction as arbitrary: s)
  case Nil
  then show ?case by simp
next
  case (Cons a as)
  have "fold (\<lambda>(a, b). f a b) (map (Pair a) bs) s = fold (f a) bs s"
    by (simp add: fold_map comp_def)
  then show ?case using Cons by simp
qed


section \<open>Grid::get on a well-formed grid\<close>

lemma to_unsigned_nat: "0 \<le> i \<Longrightarrow> i < 2 ^ 31 \<Longrightarrow> to_unsigned i = nat i"
  by (simp add: to_unsigned_def)

lemma wf_grid_shape: "wf_grid g \<Longrightarrow> shape g (nat (width g)) (nat (height g))"
  by (simp add: wf_grid_def shape_def)

lemma shape_wf_grid:
  "shape g (nat (width g)) (nat (height g)) \<Longrightarrow> 0 \<le> width g \<Longrightarrow> width g < 2 ^ 31 \<Longrightarrow>
   0 \<le> height g \<Longrightarrow> height g < 2 ^ 31 \<Longrightarrow> wf_grid g"
  by (auto simp: wf_grid_def shape_def in_set_conv_nth)

lemma get_in_range:
  assumes "wf_grid g" "0 \<le> x" "x < width g" "0 \<le> y" "y < height g"
  shows "get g x y = Inr (cell_at g x y)"
proof -
  have ux: "to_unsigned x = nat x" and uy: "to_unsigned y = nat y"
    using assms by (simp_all add: to_unsigned_nat wf_grid_def)
  have l: "length (grid g) = nat (width g)" using assms(1) by (simp add: wf_grid_def)
  have "grid g ! 0 \<in> set (grid g)" using l assms by simp
  then have h: "length (grid g ! 0) = nat (height g)" using assms(1) by (simp add: wf_grid_def)
  have "\<not> nat (width g) \<le> nat x" "\<not> nat (height g) \<le> nat y"
    using assms by linarith+
  then show ?thesis using l h by (simp add: get_def ux uy cell_at_def Let_def)
qed

section \<open>Grid::merge\<close>

lemma merge_body:
  "(if grid g ! x ! y = DEAD
    then g\<lparr>grid := (grid g)[x := (grid g ! x)[y := grid other ! (x - ux0) ! (y - uy0)]]\<rparr>
    else g) = put g x y (merge_value other ux0 uy0 x y (grid g ! x ! y))"
  by (simp add: merge_value_def put_same) (simp add: put_def)

lemma merge_alive_only_write_all:
  assumes "0 \<le> x0" "0 \<le> y0" "x0 + width other \<le> width g" "y0 + height other \<le> height g"
  shows "merge g other x0 y0 True
         = Inr (write_all (merge_value other (to_unsigned x0) (to_unsigned y0))
                  (List.product [to_unsigned x0..<to_unsigned (width other + x0)]
                                [to_unsigned y0..<to_unsigned (height other + y0)]) g)"
  using assms
  by (simp add: merge_def get_width_def get_height_def merge_body write_all_def
      fold_nested_product [symmetric])

text \<open>
  C8. For well-formed grids and a placement at which \<open>other\<close> fits inside the target,
  \<open>merge\<close> with \<^verbatim>\<open>alive_only = true\<close> returns a grid of the same dimensions in which
  every cell that was alive is still alive, and every cell that was dead holds the
  corresponding cell of \<open>other\<close> inside the merge region and is still dead outside it.
\<close>

theorem merge_alive_only_keeps_alive:
  assumes wg: "wf_grid g" and wo: "wf_grid other"
    and x0: "0 \<le> x0" and y0: "0 \<le> y0"
    and fx: "x0 + width other \<le> width g" and fy: "y0 + height other \<le> height g"
  shows "\<exists>g'. merge g other x0 y0 True = Inr g' \<and> wf_grid g'
           \<and> width g' = width g \<and> height g' = height g
           \<and> (\<forall>x y. 0 \<le> x \<and> x < width g \<and> 0 \<le> y \<and> y < height g \<longrightarrow>
                 (get g x y = Inr ALIVE \<longrightarrow> get g' x y = Inr ALIVE)
                 \<and> (get g x y = Inr DEAD \<longrightarrow>
                      get g' x y =
                        (if x0 \<le> x \<and> x < x0 + width other \<and> y0 \<le> y \<and> y < y0 + height other
                         then get other (x - x0) (y - y0) else Inr DEAD)))"
proof -
  define xs where "xs = [nat x0..<nat (width other + x0)]"
  define ys where "ys = [nat y0..<nat (height other + y0)]"
  define g' where "g' = write_all (merge_value other (nat x0) (nat y0)) (List.product xs ys) g"
  have bg: "0 \<le> width g" "width g < 2 ^ 31" "0 \<le> height g" "height g < 2 ^ 31"
    using wg by (simp_all add: wf_grid_def)
  have bo: "0 \<le> width other" "0 \<le> height other"
    using wo by (simp_all add: wf_grid_def)
  have u: "to_unsigned x0 = nat x0" "to_unsigned y0 = nat y0"
    "to_unsigned (width other + x0) = nat (width other + x0)"
    "to_unsigned (height other + y0) = nat (height other + y0)"
    using x0 y0 fx fy bg bo by (simp_all add: to_unsigned_nat)
  have m: "merge g other x0 y0 True = Inr g'"
    unfolding g'_def xs_def ys_def
    using merge_alive_only_write_all [OF x0 y0 fx fy] by (simp add: u)
  have sg: "shape g (nat (width g)) (nat (height g))"
    using wg by (rule wf_grid_shape)
  have f: "width g' = width g" "height g' = height g"
    by (simp_all add: g'_def write_all_fields)
  have sg': "shape g' (nat (width g')) (nat (height g'))"
    unfolding f unfolding g'_def using sg by (rule shape_write_all)
  have wg': "wf_grid g'"
    using sg' bg by (intro shape_wf_grid) (simp_all add: f)
  have d: "distinct (List.product xs ys)"
    by (simp add: xs_def ys_def distinct_product)
  have r: "\<forall>(x, y) \<in> set (List.product xs ys). x < nat (width g) \<and> y < nat (height g)"
    using fx fy x0 y0 by (auto simp: xs_def ys_def)
  have cells: "(get g x y = Inr ALIVE \<longrightarrow> get g' x y = Inr ALIVE)
       \<and> (get g x y = Inr DEAD \<longrightarrow>
            get g' x y =
              (if x0 \<le> x \<and> x < x0 + width other \<and> y0 \<le> y \<and> y < y0 + height other
               then get other (x - x0) (y - y0) else Inr DEAD))"
    if xy: "0 \<le> x" "x < width g" "0 \<le> y" "y < height g" for x y
  proof -
    have n: "nat x < nat (width g)" "nat y < nat (height g)"
      using xy by linarith+
    have c: "cell_at g' x y
             = (if (nat x, nat y) \<in> set (List.product xs ys)
                then merge_value other (nat x0) (nat y0) (nat x) (nat y) (cell_at g x y)
                else cell_at g x y)"
      unfolding cell_at_def g'_def by (rule nth_write_all [OF sg d r n])
    have mem: "(nat x, nat y) \<in> set (List.product xs ys)
               \<longleftrightarrow> x0 \<le> x \<and> x < x0 + width other \<and> y0 \<le> y \<and> y < y0 + height other"
      using xy x0 y0 bo by (auto simp: xs_def ys_def)
    have gg: "get g x y = Inr (cell_at g x y)"
      using wg xy by (rule get_in_range)
    have gg': "get g' x y = Inr (cell_at g' x y)"
      using wg' xy by (intro get_in_range) (simp_all add: f)
    show ?thesis
    proof (cases "x0 \<le> x \<and> x < x0 + width other \<and> y0 \<le> y \<and> y < y0 + height other")
      case True
      then have go: "get other (x - x0) (y - y0) = Inr (cell_at other (x - x0) (y - y0))"
        using wo by (intro get_in_range) simp_all
      have "nat (x - x0) = nat x - nat x0" "nat (y - y0) = nat y - nat y0"
        using True x0 y0 by linarith+
      then have co: "cell_at other (x - x0) (y - y0) = grid other ! (nat x - nat x0) ! (nat y - nat y0)"
        by (simp add: cell_at_def)
      have "(nat x, nat y) \<in> set (List.product xs ys)"
        using True mem by blast
      then have "cell_at g' x y = merge_value other (nat x0) (nat y0) (nat x) (nat y) (cell_at g x y)"
        unfolding c by (simp only: if_True)
      then have "cell_at g' x y
                 = (if cell_at g x y = DEAD then cell_at other (x - x0) (y - y0) else cell_at g x y)"
        by (simp add: merge_value_def co)
      then show ?thesis
        unfolding gg gg' go using True by (cases "cell_at g x y") auto
    next
      case False
      then have "(nat x, nat y) \<notin> set (List.product xs ys)"
        using mem by blast
      then have "cell_at g' x y = cell_at g x y"
        unfolding c by (simp only: if_False)
      then show ?thesis
        unfolding gg gg' using False by (cases "cell_at g x y") auto
    qed
  qed
  show ?thesis
    using m wg' f cells by blast
qed

theorem merge_alive_only_keeps_alive_witness:
  "wf_grid \<lparr>width = 2, height = 2, grid = [[ALIVE, DEAD], [DEAD, DEAD]]\<rparr>
   \<and> wf_grid \<lparr>width = 1, height = 2, grid = [[DEAD, ALIVE]]\<rparr>
   \<and> (\<exists>g'. merge \<lparr>width = 2, height = 2, grid = [[ALIVE, DEAD], [DEAD, DEAD]]\<rparr>
                   \<lparr>width = 1, height = 2, grid = [[DEAD, ALIVE]]\<rparr> 0 0 True = Inr g'
             \<and> get g' 0 0 = Inr ALIVE \<and> get g' 0 1 = Inr ALIVE)"
proof -
  let ?g = "\<lparr>width = 2, height = 2, grid = [[ALIVE, DEAD], [DEAD, DEAD]]\<rparr>"
  let ?o = "\<lparr>width = 1, height = 2, grid = [[DEAD, ALIVE]]\<rparr>"
  have wg: "wf_grid ?g" and wo: "wf_grid ?o"
    by (simp_all add: wf_grid_def)
  have g00: "get ?g 0 0 = Inr ALIVE" and g01: "get ?g 0 1 = Inr DEAD"
    and o01: "get ?o 0 1 = Inr ALIVE"
    by (simp_all add: get_def to_unsigned_def)
  obtain g' where m: "merge ?g ?o 0 0 True = Inr g'"
    and c: "\<forall>x y. 0 \<le> x \<and> x < width ?g \<and> 0 \<le> y \<and> y < height ?g \<longrightarrow>
                 (get ?g x y = Inr ALIVE \<longrightarrow> get g' x y = Inr ALIVE)
                 \<and> (get ?g x y = Inr DEAD \<longrightarrow>
                      get g' x y =
                        (if 0 \<le> x \<and> x < 0 + width ?o \<and> 0 \<le> y \<and> y < 0 + height ?o
                         then get ?o (x - 0) (y - 0) else Inr DEAD))"
    using merge_alive_only_keeps_alive [OF wg wo, of 0 0] by auto
  have "get g' 0 0 = Inr ALIVE"
    using c [rule_format, of 0 0] g00 by simp
  moreover have "get g' 0 1 = Inr ALIVE"
    using c [rule_format, of 0 1] g01 o01 by simp
  ultimately show ?thesis
    using wg wo m by blast
qed

section \<open>World::count_neighbours\<close>














section \<open>World::step\<close>








lemma grid_eqI:
  fixes a b :: Grid
  assumes "shape a W H" "shape b W H" "width a = width b" "height a = height b"
    and "\<And>x y. x < W \<Longrightarrow> y < H \<Longrightarrow> grid a ! x ! y = grid b ! x ! y"
  shows "a = b"
proof -
  have "grid a ! x = grid b ! x" if "x < W" for x
    using assms(1,2,5) that by (intro nth_equalityI) (simp_all add: shape_def)
  then have "grid a = grid b"
    using assms(1,2) by (intro nth_equalityI) (simp_all add: shape_def)
  then show ?thesis
    using assms(3,4) by simp
qed



lemma wf_conway_transition: "wf_grid g \<Longrightarrow> wf_grid (conway_transition toroidal g)"
  by (simp add: wf_grid_def conway_transition_def)












subsection \<open>Wrap-around beyond \<open>2 ^ 30\<close>\<close>





lemma overflow_world_reachable: "World_new 1 2147483647 = Inr w \<Longrightarrow> reachable w"
  by (rule reachable.from_dimensions [of 1 2147483647]) simp_all


subsection \<open>The transition\<close>



section \<open>Grid::rotate\<close>

lemma rotate_once_fields: "width (rotate_once g) = height g" "height (rotate_once g) = width g"
  by (simp_all add: rotate_once_def)

lemma rotate_odd_fields:
  assumes "odd rotation"
  shows "width (rotate_grid g rotation) = height g \<and> height (rotate_grid g rotation) = width g"
proof -
  have "rotation mod 4 = 1 \<or> rotation mod 4 = 3"
    using assms by presburger
  then have "nat (rotation mod 4) = 1 \<or> nat (rotation mod 4) = 3"
    by auto
  then show ?thesis
    by (auto simp: rotate_grid_def numeral_3_eq_3 rotate_once_fields)
qed

text \<open>
  Four quarter turns give a well-formed grid back, so reducing the count modulo 4 loses
  nothing: rotating by \<open>n\<close> is \<open>n\<close> quarter turns clockwise, and \<open>n\<close> quarter turns
  clockwise undo a rotation by \<open>- n\<close>.
\<close>

lemma shape_rotate_once: "shape (rotate_once g) (nat (height g)) (nat (width g))"
  by (simp add: shape_def rotate_once_def)

lemma nth_rotate_once:
  "x < nat (height g) \<Longrightarrow> y < nat (width g) \<Longrightarrow>
   grid (rotate_once g) ! x ! y = grid g ! y ! (nat (height g) - 1 - x)"
  by (simp add: rotate_once_def)

lemma wf_rotate_once: "wf_grid g \<Longrightarrow> wf_grid (rotate_once g)"
  by (simp add: wf_grid_def rotate_once_def)

lemma rotate_once_four:
  assumes "wf_grid g"
  shows "(rotate_once ^^ 4) g = g"
proof -
  let ?W = "nat (width g)" and ?H = "nat (height g)"
  let ?r1 = "rotate_once g"
  let ?r2 = "rotate_once ?r1"
  let ?r3 = "rotate_once ?r2"
  let ?r4 = "rotate_once ?r3"
  have "?r4 = g"
  proof (rule grid_eqI)
    show "shape ?r4 ?W ?H"
      using shape_rotate_once [of ?r3] by (simp add: rotate_once_fields)
    show "shape g ?W ?H"
      using assms by (rule wf_grid_shape)
    show "width ?r4 = width g" "height ?r4 = height g"
      by (simp_all add: rotate_once_fields)
  next
    fix x y
    assume xy: "x < ?W" "y < ?H"
    have "grid ?r4 ! x ! y = grid ?r3 ! y ! (?W - 1 - x)"
      using xy by (simp add: nth_rotate_once rotate_once_fields)
    also have "\<dots> = grid ?r2 ! (?W - 1 - x) ! (?H - 1 - y)"
      using xy by (simp add: nth_rotate_once rotate_once_fields)
    also have "\<dots> = grid ?r1 ! (?H - 1 - y) ! (?W - 1 - (?W - 1 - x))"
      using xy by (simp add: nth_rotate_once rotate_once_fields)
    also have "\<dots> = grid g ! (?W - 1 - (?W - 1 - x)) ! (?H - 1 - (?H - 1 - y))"
      using xy by (simp add: nth_rotate_once rotate_once_fields)
    also have "\<dots> = grid g ! x ! y"
      using xy by simp
    finally show "grid ?r4 ! x ! y = grid g ! x ! y" .
  qed
  then show ?thesis
    by (simp add: numeral_eq_Suc)
qed

lemma rotate_once_four_times: "wf_grid g \<Longrightarrow> (rotate_once ^^ (4 * q)) g = g"
proof (induction q)
  case 0
  then show ?case by simp
next
  case (Suc q)
  have "(rotate_once ^^ (4 * Suc q)) g = (rotate_once ^^ 4) ((rotate_once ^^ (4 * q)) g)"
    by (simp only: mult_Suc_right funpow_add comp_apply)
  then show ?case
    using Suc by (simp only: rotate_once_four)
qed

lemma rotate_grid_turns:
  assumes "wf_grid g"
  shows "rotate_grid g (int n) = (rotate_once ^^ n) g"
proof -
  have n: "n = n mod 4 + 4 * (n div 4)"
    by simp
  have "(rotate_once ^^ n) g = (rotate_once ^^ (n mod 4)) ((rotate_once ^^ (4 * (n div 4))) g)"
    by (subst n) (simp only: funpow_add comp_apply)
  also have "\<dots> = (rotate_once ^^ (n mod 4)) g"
    using assms by (simp only: rotate_once_four_times)
  also have "\<dots> = rotate_grid g (int n)"
    by (simp add: rotate_grid_def nat_mod_distrib)
  finally show ?thesis by simp
qed

lemma rotate_grid_back:
  assumes "wf_grid g"
  shows "(rotate_once ^^ n) (rotate_grid g (- int n)) = g"
proof -
  have m: "nat ((- int n) mod 4) + n = 4 * ((nat ((- int n) mod 4) + n) div 4)"
  proof -
    have "((- int n) mod 4 + int n) mod 4 = 0"
      by presburger
    then have "int (nat ((- int n) mod 4) + n) mod 4 = 0"
      by simp
    then have "int ((nat ((- int n) mod 4) + n) mod 4) = 0"
      by (simp only: zmod_int of_nat_numeral)
    then have "(nat ((- int n) mod 4) + n) mod 4 = 0"
      by simp
    then show ?thesis
      using mult_div_mod_eq [of 4 "nat ((- int n) mod 4) + n"] by simp
  qed
  have "(rotate_once ^^ n) (rotate_grid g (- int n))
        = (rotate_once ^^ (nat ((- int n) mod 4) + n)) g"
    by (simp add: rotate_grid_def funpow_add add.commute)
  also have "\<dots> = g"
    by (subst m) (rule rotate_once_four_times [OF assms])
  finally show ?thesis .
qed

text \<open>
  C9. For every grid and every integer \<open>rotation\<close>, rotating by \<open>rotation + 4\<close> gives the
  same grid as rotating by \<open>rotation\<close>, rotating by 0 gives the grid itself, and an odd
  \<open>rotation\<close> swaps width and height. The rotation is a function of the grid, so the
  grid it is applied to is not modified.
\<close>

theorem rotate_grid_properties:
  "rotate_grid g (rotation + 4) = rotate_grid g rotation
   \<and> rotate_grid g 0 = g
   \<and> (odd rotation \<longrightarrow> width (rotate_grid g rotation) = height g
                        \<and> height (rotate_grid g rotation) = width g)"
  using rotate_odd_fields [of rotation g] by (simp add: rotate_grid_def)

theorem rotate_grid_properties_witness:
  "odd (-3 :: int)
   \<and> width (rotate_grid \<lparr>width = 1, height = 3, grid = [[ALIVE, DEAD, DEAD]]\<rparr> (-3)) = 3
   \<and> height (rotate_grid \<lparr>width = 1, height = 3, grid = [[ALIVE, DEAD, DEAD]]\<rparr> (-3)) = 1
   \<and> rotate_grid \<lparr>width = 1, height = 3, grid = [[ALIVE, DEAD, DEAD]]\<rparr> (-3 + 4)
     = rotate_grid \<lparr>width = 1, height = 3, grid = [[ALIVE, DEAD, DEAD]]\<rparr> (-3)"
  using rotate_grid_properties [of "\<lparr>width = 1, height = 3, grid = [[ALIVE, DEAD, DEAD]]\<rparr>" "-3"]
  by simp

end
